theory Spec2Isabelle
  imports Complex_Main
begin

section \<open>Data model\<close>

text \<open>
  The application (class \<open>DataAnalysisStudio\<close> of \<open>Analysis.py\<close>) keeps one resident
  table, the path it came from, one figure and a handful of text widgets. The table is a
  pandas \<open>DataFrame\<close>; the model keeps of it what the handlers read: the length of the
  index, and for every column its label, its storage dtype and its cells.

  A missing cell (pandas' NaN / None) is \<open>NA\<close>. A present floating-point cell carries the
  real number the double denotes; the handlers only copy, clip, truncate and compare such
  cells, all of which are exact on doubles. Results of floating-point \<^emph>\<open>arithmetic\<close>
  (means, deviations, correlations, differences) are never computed in the model: they
  are produced by the library functions of the record \<open>runtime\<close> below.
\<close>

datatype cell = NA | IntV int | FloatV real | StrV string

text \<open>
  A double returned by a library computation: not-a-number, or a finite value, kept as the
  real number it denotes.
\<close>

datatype float64 = NaN | Finite real

text \<open>
  The storage dtype of a column. \<open>OtherNumber\<close> stands for the remaining dtypes under
  \<open>np.number\<close> (the other integer widths, unsigned integers, \<open>float16\<close>, complex), by
  name; \<open>OtherDtype\<close> for any dtype outside it that is not listed.
\<close>

datatype dtype =
    Int64 | Float64 | Int32 | Float32 | Bool | Object | Category | Datetime64
  | OtherNumber string | OtherDtype string

record column =
  col_name :: string
  col_dtype :: dtype
  col_values :: "cell list"

record dataframe =
  nrows :: nat
  columns :: "column list"

text \<open>
  The matrix returned by \<open>DataFrame.corr()\<close>: its column labels, and its entry at a pair
  of positions (\<open>corr_matrix.iloc[i, j]\<close>).
\<close>

record corr_matrix =
  corr_columns :: "string list"
  corr_iloc :: "nat \<Rightarrow> nat \<Rightarrow> float64"

text \<open>
  The state of numpy's process-wide random generator (a finite bit pattern), as a number.
\<close>

type_synonym rng = nat

text \<open>
  Everything the handlers call in pandas, numpy, matplotlib, the operating system and the
  float unit. A reader returns \<open>Inl msg\<close> when it raises (\<open>msg\<close> is \<open>str(e)\<close>),
  \<open>Inr d\<close> when it returns the table \<open>d\<close>; \<open>savefig\<close> returns the message of the
  exception it raised, if any. \<open>seed n\<close> is the generator state that
  \<open>np.random.seed(n)\<close> installs; a draw takes the state and returns the sample with the
  state it leaves. \<open>int_dtype\<close> is the dtype of \<open>astype(int)\<close> (the platform's default
  integer). Apart from the readers and \<open>savefig\<close>, library calls are taken to return.
\<close>

record runtime =
  read_csv :: "string \<Rightarrow> string + dataframe"
  read_excel :: "string \<Rightarrow> string + dataframe"
  read_json :: "string \<Rightarrow> string + dataframe"
  basename :: "string \<Rightarrow> string"
  memory_usage_mb :: "dataframe \<Rightarrow> float64"
  frame_min :: "column list \<Rightarrow> float64"
  frame_max :: "column list \<Rightarrow> float64"
  describe_string :: "dataframe \<Rightarrow> string"
  corr :: "dataframe \<Rightarrow> corr_matrix"
  series_corr :: "cell list \<Rightarrow> cell list \<Rightarrow> float64"
  mean :: "cell list \<Rightarrow> float64"
  median :: "cell list \<Rightarrow> float64"
  std :: "cell list \<Rightarrow> float64"
  min_of :: "cell list \<Rightarrow> float64"
  max_of :: "cell list \<Rightarrow> float64"
  skew :: "cell list \<Rightarrow> float64"
  kurtosis :: "cell list \<Rightarrow> float64"
  quantile :: "cell list \<Rightarrow> real \<Rightarrow> float64"
  mode :: "cell list \<Rightarrow> cell list"
  fsub :: "float64 \<Rightarrow> float64 \<Rightarrow> float64"
  percent :: "nat \<Rightarrow> nat \<Rightarrow> float64"
  savefig :: "string \<Rightarrow> string option"
  seed :: "nat \<Rightarrow> rng"
  normal :: "real \<Rightarrow> real \<Rightarrow> nat \<Rightarrow> rng \<Rightarrow> real list \<times> rng"
  uniform :: "real \<Rightarrow> real \<Rightarrow> nat \<Rightarrow> rng \<Rightarrow> real list \<times> rng"
  choice :: "string list \<Rightarrow> nat \<Rightarrow> rng \<Rightarrow> string list \<times> rng"
  int_dtype :: dtype

subsection \<open>Exact pandas primitives\<close>

text \<open>
  The primitives below involve no floating-point arithmetic and are written out:
  \<open>Series.dropna\<close>, \<open>Series.count\<close>, \<open>Series.isnull().sum()\<close>, \<open>Series.nunique\<close>,
  \<open>Series.value_counts\<close> (the distinct present values with their numbers of occurrences,
  most frequent first; pandas leaves the order among equal counts open, here the order of
  \<open>remdups\<close> is kept), \<open>head\<close>, \<open>DataFrame.empty\<close> and
  \<open>select_dtypes(include=[np.number])\<close> / \<open>select_dtypes(include=['object'])\<close>.
\<close>

definition dropna :: "cell list \<Rightarrow> cell list" where
  "dropna xs = filter (\<lambda>v. v \<noteq> NA) xs"

definition count :: "cell list \<Rightarrow> nat" where
  "count xs = length (dropna xs)"

definition isnull_sum :: "cell list \<Rightarrow> nat" where
  "isnull_sum xs = length (filter (\<lambda>v. v = NA) xs)"

definition nunique :: "cell list \<Rightarrow> nat" where
  "nunique xs = length (remdups (dropna xs))"

definition counts_of :: "'a list \<Rightarrow> ('a \<times> nat) list" where
  "counts_of xs = sort_key (\<lambda>p. - int (snd p)) (map (\<lambda>v. (v, count_list xs v)) (remdups xs))"

definition value_counts :: "cell list \<Rightarrow> (cell \<times> nat) list" where
  "value_counts xs = counts_of (dropna xs)"

definition head :: "nat \<Rightarrow> 'a list \<Rightarrow> 'a list" where
  "head n xs = take n xs"

definition empty :: "dataframe \<Rightarrow> bool" where
  "empty d = (columns d = [] \<or> nrows d = 0)"

fun is_number :: "dtype \<Rightarrow> bool" where
  "is_number Int64 = True"
| "is_number Float64 = True"
| "is_number Int32 = True"
| "is_number Float32 = True"
| "is_number (OtherNumber _) = True"
| "is_number _ = False"

definition select_number :: "dataframe \<Rightarrow> dataframe" where
  "select_number d = d\<lparr>columns := filter (\<lambda>c. is_number (col_dtype c)) (columns d)\<rparr>"

definition select_object :: "dataframe \<Rightarrow> dataframe" where
  "select_object d = d\<lparr>columns := filter (\<lambda>c. col_dtype c = Object) (columns d)\<rparr>"

text \<open>
  \<open>df[label]\<close>: the column with that label. pandas raises \<open>KeyError\<close> when there is none
  and returns a sub-frame, not a series, when several columns carry the label.
\<close>

datatype selection = Series column | KeyError | Frame

definition getitem :: "dataframe \<Rightarrow> string \<Rightarrow> selection" where
  "getitem d label =
     (case filter (\<lambda>c. col_name c = label) (columns d) of
        [] \<Rightarrow> KeyError
      | [c] \<Rightarrow> Series c
      | _ \<Rightarrow> Frame)"

text \<open>Comparison and absolute value of doubles: every comparison with NaN is false.\<close>

fun fabs :: "float64 \<Rightarrow> float64" where
  "fabs NaN = NaN"
| "fabs (Finite r) = Finite \<bar>r\<bar>"

fun fgt :: "float64 \<Rightarrow> real \<Rightarrow> bool" where
  "fgt NaN t = False"
| "fgt (Finite r) t = (t < r)"

text \<open>\<open>str.endswith\<close>.\<close>

definition endswith :: "string \<Rightarrow> string \<Rightarrow> bool" where
  "endswith s suf = (length suf \<le> length s \<and> drop (length s - length suf) s = suf)"

section \<open>Application state\<close>

text \<open>
  The widgets hold structured values rather than rendered text: a report is kept as the
  values interpolated into its f-string, a tree row as the cells it renders, a dialog as
  the \<open>messagebox\<close> call that raised it (\<open>callback_exception\<close> records an exception
  that left a handler: Tk reports it and the application goes on). The pictograph that starts most status messages
  is left out of the message text. The time stamp that \<open>datetime.now()\<close> writes into a
  report is an argument \<open>now\<close> of the handler.
\<close>

datatype status_type = Info | Success | Warning | Error

datatype dialog =
    showwarning string string
  | showerror string string
  | showinfo string string
  | callback_exception string

datatype tab = plot_frame | data_frame | results_frame

datatype text_state = NORMAL | DISABLED

datatype tree_row = Values "cell list" | Dots nat | Note nat nat

record treeview =
  tree_columns :: "string list"
  tree_rows :: "tree_row list"

datatype data_status = No_data_loaded | Shape nat nat string

datatype missing_report = No_missing | Missing_columns "(string \<times> nat \<times> float64) list"

record overview =
  ov_shape :: "nat \<times> nat"
  ov_memory :: float64
  ov_column_types :: "(dtype \<times> nat) list"
  ov_missing :: missing_report
  ov_numeric :: nat
  ov_categorical :: nat
  ov_numeric_range :: "(float64 \<times> float64) option"

datatype info_text = Blank_info | No_data_info | Dataset_overview overview

record numeric_extra =
  ne_skewness :: float64
  ne_kurtosis :: float64
  ne_range :: float64
  ne_iqr :: float64

record numeric_analysis =
  na_mean :: float64
  na_median :: float64
  na_mode :: "cell option"
  na_std :: float64
  na_min :: float64
  na_max :: float64
  na_range :: float64
  na_skewness :: float64
  na_kurtosis :: float64
  na_q1 :: float64
  na_q2 :: float64
  na_q3 :: float64
  na_iqr :: float64

record categorical_analysis =
  ca_unique :: nat
  ca_most_common :: "cell option"
  ca_top :: "(cell \<times> nat) list"

datatype analysis = Numeric numeric_analysis | Categorical categorical_analysis

record column_report =
  cr_column :: string
  cr_now :: string
  cr_dtype :: dtype
  cr_non_null :: nat
  cr_length :: nat
  cr_missing :: nat
  cr_missing_percent :: float64
  cr_analysis :: analysis

datatype results =
    Welcome_message
  | Cleared
  | Statistical_summary string string "(string \<times> numeric_extra) list"
      "(string \<times> nat \<times> cell option) list"
  | Correlation_analysis string corr_matrix "(string \<times> string \<times> float64) list"
  | Column_analysis column_report

text \<open>
  The figure is the list of its axes: \<open>fig.clear()\<close> empties it, \<open>fig.add_subplot(111)\<close>
  adds one, and the plotting calls fill the axes they were given.
\<close>

datatype axes =
    Empty_axes
  | Welcome_plot
  | Bar_chart string "(cell \<times> nat) list" "nat list"
  | Histogram string "cell list" nat float64 float64 nat
  | Heatmap corr_matrix
  | Scatter string string "cell list" "cell list" float64

record app =
  df :: "dataframe option"
  current_file :: "string option"
  fig :: "axes list"
  data_tree :: treeview
  column_combo :: "string list"
  column_var :: string
  data_info_text :: info_text
  results_text :: results
  results_state :: text_state
  status_label :: "string \<times> status_type"
  data_status_label :: data_status
  right_notebook :: tab
  dialogs :: "dialog list"
  np_random :: rng

text \<open>
  The state that \<open>__init__\<close> leaves behind. (The generator state at start-up is
  whatever numpy chose; the sample generator re-seeds before it draws.)
\<close>

definition init :: app where
  "init = \<lparr>df = None, current_file = None, fig = [Welcome_plot],
     data_tree = \<lparr>tree_columns = [], tree_rows = []\<rparr>,
     column_combo = [], column_var = [],
     data_info_text = Blank_info,
     results_text = Welcome_message, results_state = DISABLED,
     status_label = (''Ready for data analysis'', Success),
     data_status_label = No_data_loaded,
     right_notebook = plot_frame, dialogs = [], np_random = 0\<rparr>"

section \<open>Status bar and data view\<close>

definition messagebox :: "dialog \<Rightarrow> app \<Rightarrow> app" where
  "messagebox dlg s = s\<lparr>dialogs := dialogs s @ [dlg]\<rparr>"

definition update_status :: "string \<Rightarrow> status_type \<Rightarrow> app \<Rightarrow> app" where
  "update_status message st s = s\<lparr>status_label := (message, st)\<rparr>"

definition update_data_status :: "runtime \<Rightarrow> app \<Rightarrow> app" where
  "update_data_status rt s =
     (case df s of
        Some d \<Rightarrow>
          s\<lparr>data_status_label :=
              Shape (nrows d) (length (columns d))
                (case current_file s of
                   None \<Rightarrow> ''Sample Data''
                 | Some f \<Rightarrow> if f = [] then ''Sample Data'' else basename rt f)\<rparr>
      | None \<Rightarrow> s\<lparr>data_status_label := No_data_loaded\<rparr>)"

text \<open>
  \<open>self.df.iloc[i][col]\<close> reads the cell of row \<open>i\<close> under the label \<open>col\<close>. Every
  column of a frame is as long as the index, and \<open>i\<close> stays below that length.
\<close>

definition cell_at :: "column \<Rightarrow> nat \<Rightarrow> cell" where
  "cell_at c i = (if i < length (col_values c) then col_values c ! i else NA)"

text \<open>
  \<open>update_data_display\<close> empties the tree, sets the headings and inserts the first 100
  rows, each rendered from its cells, then two closing rows when the table is longer.
  Frames are taken with pairwise distinct labels, as the readers and the sample generator
  build them, so that reading a row by labels visits the columns in order.
\<close>

definition update_data_display :: "runtime \<Rightarrow> app \<Rightarrow> app" where
  "update_data_display rt s =
     (case df s of
        None \<Rightarrow> s
      | Some d \<Rightarrow>
          let cols = map col_name (columns d);
              display_rows = min 100 (nrows d);
              rows = map (\<lambda>i. Values (map (\<lambda>c. cell_at c i) (columns d))) [0..<display_rows];
              s1 = update_data_status rt (s\<lparr>data_tree := \<lparr>tree_columns = cols, tree_rows = rows\<rparr>\<rparr>)
          in if 100 < nrows d
             then s1\<lparr>data_tree :=
                    \<lparr>tree_columns = cols,
                     tree_rows = rows @ [Dots (length cols), Note (nrows d) (length cols)]\<rparr>\<rparr>
             else s1)"

definition update_column_list :: "app \<Rightarrow> app" where
  "update_column_list s =
     (case df s of
        None \<Rightarrow> s
      | Some d \<Rightarrow>
          let cols = map col_name (columns d);
              s1 = s\<lparr>column_combo := cols\<rparr>
          in if cols \<noteq> [] then s1\<lparr>column_var := hd cols\<rparr> else s1)"

definition missing_of :: "runtime \<Rightarrow> dataframe \<Rightarrow> missing_report" where
  "missing_of rt d =
     (if sum_list (map (\<lambda>c. isnull_sum (col_values c)) (columns d)) = 0 then No_missing
      else Missing_columns
             (map (\<lambda>c. (col_name c, isnull_sum (col_values c),
                         percent rt (isnull_sum (col_values c)) (nrows d)))
                (filter (\<lambda>c. 0 < isnull_sum (col_values c)) (columns d))))"

definition show_data_info :: "runtime \<Rightarrow> app \<Rightarrow> app" where
  "show_data_info rt s =
     (case df s of
        None \<Rightarrow> s\<lparr>data_info_text := No_data_info\<rparr>
      | Some d \<Rightarrow>
          let numeric_cols = columns (select_number d);
              categorical_cols = columns (select_object d)
          in s\<lparr>data_info_text := Dataset_overview
                 \<lparr>ov_shape = (nrows d, length (columns d)),
                  ov_memory = memory_usage_mb rt d,
                  ov_column_types = counts_of (map col_dtype (columns d)),
                  ov_missing = missing_of rt d,
                  ov_numeric = length numeric_cols,
                  ov_categorical = length categorical_cols,
                  ov_numeric_range =
                    (if 0 < length numeric_cols
                     then Some (frame_min rt numeric_cols, frame_max rt numeric_cols)
                     else None)\<rparr>\<rparr>)"

section \<open>Loading\<close>

text \<open>The choice of the reader in \<open>load_data\<close>, by the end of the path.\<close>

definition read_by_extension :: "runtime \<Rightarrow> string \<Rightarrow> string + dataframe" where
  "read_by_extension rt file_path =
     (if endswith file_path ''.csv'' then read_csv rt file_path
      else if endswith file_path ''.xlsx'' \<or> endswith file_path ''.xls''
        then read_excel rt file_path
      else if endswith file_path ''.json'' then read_json rt file_path
      else read_csv rt file_path)"

text \<open>The \<open>except\<close> branch of \<open>load_data\<close>.\<close>

definition load_failed :: "string \<Rightarrow> app \<Rightarrow> app" where
  "load_failed e s =
     update_status ''Failed to load data'' Error
       (messagebox (showerror ''Error'' (''Failed to load data:'' @ [CHR 0x0A] @ e)) s)"

text \<open>
  \<open>load_data\<close>; \<open>file_path\<close> is what the file dialog returned, empty when it was
  cancelled. The table is assigned only once the reader has returned.
\<close>

definition load_data :: "runtime \<Rightarrow> string \<Rightarrow> app \<Rightarrow> app" where
  "load_data rt file_path s =
     (if file_path = [] then s
      else
        let s1 = update_status ''Loading data...'' Info s
        in case read_by_extension rt file_path of
             Inl e \<Rightarrow> load_failed e s1
           | Inr d \<Rightarrow>
               update_status ''Data loaded successfully!'' Success
                 (show_data_info rt
                   (update_column_list
                     (update_data_display rt
                       (s1\<lparr>df := Some d, current_file := Some file_path\<rparr>)))))"

text \<open>
  \<open>load_sample_data\<close>. The dictionary is built in the order it is written, every draw
  continuing from the generator state the previous one left; \<open>astype(int)\<close> truncates
  towards zero and \<open>np.clip\<close> bounds every entry. The table has as many rows as were
  asked of every draw.
\<close>

definition astype_int :: "real \<Rightarrow> int" where
  "astype_int r = (if 0 \<le> r then \<lfloor>r\<rfloor> else \<lceil>r\<rceil>)"

definition clip :: "'a::linorder \<Rightarrow> 'a \<Rightarrow> 'a \<Rightarrow> 'a" where
  "clip lo hi x = min hi (max lo x)"

definition n_samples :: nat where
  "n_samples = 1000"

text \<open>The calls into \<open>np.random\<close>: each reads and replaces the process-wide state.\<close>

definition np_random_seed :: "runtime \<Rightarrow> nat \<Rightarrow> app \<Rightarrow> app" where
  "np_random_seed rt n s = s\<lparr>np_random := seed rt n\<rparr>"

definition np_random_normal :: "runtime \<Rightarrow> real \<Rightarrow> real \<Rightarrow> nat \<Rightarrow> app \<Rightarrow> real list \<times> app" where
  "np_random_normal rt loc scale n s =
     (let (xs, g) = normal rt loc scale n (np_random s) in (xs, s\<lparr>np_random := g\<rparr>))"

definition np_random_uniform :: "runtime \<Rightarrow> real \<Rightarrow> real \<Rightarrow> nat \<Rightarrow> app \<Rightarrow> real list \<times> app" where
  "np_random_uniform rt low high n s =
     (let (xs, g) = uniform rt low high n (np_random s) in (xs, s\<lparr>np_random := g\<rparr>))"

definition np_random_choice :: "runtime \<Rightarrow> string list \<Rightarrow> nat \<Rightarrow> app \<Rightarrow> string list \<times> app" where
  "np_random_choice rt a n s =
     (let (xs, g) = choice rt a n (np_random s) in (xs, s\<lparr>np_random := g\<rparr>))"

definition load_sample_data :: "runtime \<Rightarrow> app \<Rightarrow> app" where
  "load_sample_data rt s =
     (let s0 = np_random_seed rt 42 s;
          (age, s1) = np_random_normal rt 35 12 n_samples s0;
          (income, s2) = np_random_normal rt 50000 20000 n_samples s1;
          (education_years, s3) = np_random_normal rt 14 3 n_samples s2;
          (experience, s4) = np_random_normal rt 10 8 n_samples s3;
          (satisfaction, s5) = np_random_uniform rt 1 10 n_samples s4;
          (department, s6) =
             np_random_choice rt [''IT'', ''Sales'', ''Marketing'', ''HR'', ''Finance'']
               n_samples s5;
          (performance_score, s7) = np_random_normal rt 75 15 n_samples s6;
          (city, s8) =
             np_random_choice rt
               [''New York'', ''Los Angeles'', ''Chicago'', ''Houston'', ''Phoenix'']
               n_samples s7;
          sample_data =
            \<lparr>nrows = n_samples,
             columns =
               [\<lparr>col_name = ''Age'', col_dtype = int_dtype rt,
                  col_values = map (\<lambda>x. IntV (clip 18 65 (astype_int x))) age\<rparr>,
                \<lparr>col_name = ''Income'', col_dtype = Float64,
                  col_values = map (\<lambda>x. FloatV (clip 25000 150000 x)) income\<rparr>,
                \<lparr>col_name = ''Education_Years'', col_dtype = int_dtype rt,
                  col_values = map (\<lambda>x. IntV (astype_int (clip 8 20 x))) education_years\<rparr>,
                \<lparr>col_name = ''Experience'', col_dtype = int_dtype rt,
                  col_values = map (\<lambda>x. IntV (astype_int (clip 0 40 x))) experience\<rparr>,
                \<lparr>col_name = ''Satisfaction'', col_dtype = Float64,
                  col_values = map FloatV satisfaction\<rparr>,
                \<lparr>col_name = ''Department'', col_dtype = Object,
                  col_values = map StrV department\<rparr>,
                \<lparr>col_name = ''Performance_Score'', col_dtype = Float64,
                  col_values = map (\<lambda>x. FloatV (clip 0 100 x)) performance_score\<rparr>,
                \<lparr>col_name = ''City'', col_dtype = Object,
                  col_values = map StrV city\<rparr>]\<rparr>
      in update_status ''Sample data loaded!'' Success
           (show_data_info rt
             (update_column_list
               (update_data_display rt
                 (s8\<lparr>df := Some sample_data, current_file := None\<rparr>)))))"

section \<open>Analysis handlers\<close>

definition no_data_loaded :: "app \<Rightarrow> app" where
  "no_data_loaded s = messagebox (showwarning ''Warning'' ''No data loaded!'') s"

definition no_data_or_column :: "app \<Rightarrow> app" where
  "no_data_or_column s = messagebox (showwarning ''Warning'' ''No data or column selected!'') s"

definition first_mode :: "runtime \<Rightarrow> cell list \<Rightarrow> cell option" where
  "first_mode rt xs = (case mode rt xs of [] \<Rightarrow> None | m # _ \<Rightarrow> Some m)"

definition show_statistical_summary :: "runtime \<Rightarrow> string \<Rightarrow> app \<Rightarrow> app" where
  "show_statistical_summary rt now s =
     (case df s of
        None \<Rightarrow> no_data_loaded s
      | Some d \<Rightarrow>
          let numeric =
                map (\<lambda>c. let data = dropna (col_values c)
                          in (col_name c,
                              \<lparr>ne_skewness = skew rt data, ne_kurtosis = kurtosis rt data,
                               ne_range = fsub rt (max_of rt data) (min_of rt data),
                               ne_iqr = fsub rt (quantile rt data (3/4)) (quantile rt data (1/4))\<rparr>))
                  (filter (\<lambda>c. 0 < length (dropna (col_values c))) (columns (select_number d)));
              categorical =
                map (\<lambda>c. (col_name c, nunique (col_values c), first_mode rt (col_values c)))
                  (columns (select_object d))
          in update_status ''Statistical summary generated'' Success
               (s\<lparr>results_text := Statistical_summary now (describe_string rt d) numeric categorical,
                  results_state := DISABLED,
                  right_notebook := results_frame\<rparr>))"

text \<open>
  The two nested loops of \<open>correlation_analysis\<close> over the positions
  \<open>i < j < len(corr_matrix.columns)\<close>, with the test \<open>abs(corr_val) > 0.7\<close>. The
  literal \<open>0.7\<close> is the double just below seven tenths and the next double lies above,
  so a double exceeds the one exactly when it exceeds the other.
\<close>

definition strong_corr :: "corr_matrix \<Rightarrow> (string \<times> string \<times> float64) list" where
  "strong_corr m =
     [(corr_columns m ! i, corr_columns m ! j, corr_iloc m i j).
        i \<leftarrow> [0..<length (corr_columns m)],
        j \<leftarrow> [i + 1..<length (corr_columns m)],
        fgt (fabs (corr_iloc m i j)) (7/10)]"

text \<open>The positions at which these loops append a row, in the order they do.\<close>

definition strong_positions :: "corr_matrix \<Rightarrow> (nat \<times> nat) list" where
  "strong_positions m =
     concat (map (\<lambda>i. map (Pair i) (filter (\<lambda>j. fgt (fabs (corr_iloc m i j)) (7/10))
                                      [i + 1..<length (corr_columns m)]))
               [0..<length (corr_columns m)])"

definition correlation_analysis :: "runtime \<Rightarrow> string \<Rightarrow> app \<Rightarrow> app" where
  "correlation_analysis rt now s =
     (case df s of
        None \<Rightarrow> no_data_loaded s
      | Some d \<Rightarrow>
          let numeric_df = select_number d
          in if empty numeric_df
             then messagebox
                    (showwarning ''Warning'' ''No numeric columns for correlation analysis!'') s
             else
               let corr_matrix = corr rt numeric_df
               in update_status ''Correlation analysis completed'' Success
                    (s\<lparr>results_text :=
                         Correlation_analysis now corr_matrix (strong_corr corr_matrix),
                       results_state := DISABLED,
                       right_notebook := results_frame\<rparr>))"

definition plot_correlation_heatmap :: "runtime \<Rightarrow> app \<Rightarrow> app" where
  "plot_correlation_heatmap rt s =
     (case df s of
        None \<Rightarrow> no_data_loaded s
      | Some d \<Rightarrow>
          let numeric_df = select_number d
          in if empty numeric_df
             then messagebox
                    (showwarning ''Warning'' ''No numeric columns for correlation heatmap!'') s
             else update_status ''Correlation heatmap created'' Success
                    (s\<lparr>fig := [Heatmap (corr rt numeric_df)], right_notebook := plot_frame\<rparr>))"

text \<open>
  \<open>plot_histogram\<close>. The axes of a bar chart keep the title column, the bars (value and
  height) and the count written above each bar; those of a histogram keep the column, the
  data handed to \<open>ax.hist\<close>, the number of bins and the mean, deviation and count of the
  statistics box. When the label does not select one series, reading its \<open>dtype\<close> raises
  after the figure was cleared and given new axes.
\<close>

definition plot_histogram :: "runtime \<Rightarrow> app \<Rightarrow> app" where
  "plot_histogram rt s =
     (case df s of
        None \<Rightarrow> no_data_or_column s
      | Some d \<Rightarrow>
          if column_var s = [] then no_data_or_column s
          else
            let column = column_var s
            in if column \<notin> set (map col_name (columns d))
               then messagebox (showwarning ''Warning'' ''Selected column not found!'') s
               else
                 (case getitem d column of
                    Series c \<Rightarrow>
                      let ax =
                            (if col_dtype c \<in> set [Object, Category]
                             then
                               let top_counts = head 15 (value_counts (col_values c))
                               in Bar_chart column top_counts (map snd top_counts)
                             else
                               let data = dropna (col_values c)
                               in Histogram column data 30 (mean rt data) (std rt data) (length data))
                      in update_status (''Histogram created for '' @ column) Success
                           (s\<lparr>fig := [ax], right_notebook := plot_frame\<rparr>)
                  | _ \<Rightarrow>
                      messagebox
                        (showerror ''Error''
                           (''Failed to create histogram:'' @ [CHR 0x0A] @ ''AttributeError''))
                        (s\<lparr>fig := [Empty_axes]\<rparr>)))"

text \<open>
  \<open>plot_scatter\<close>; \<open>pick\<close> is the pair of labels in the two boxes of the dialog when its
  button is pressed, \<open>None\<close> when the dialog is closed without.
\<close>

definition create_scatter :: "runtime \<Rightarrow> dataframe \<Rightarrow> string \<Rightarrow> string \<Rightarrow> app \<Rightarrow> app" where
  "create_scatter rt d x_col y_col s =
     (case (getitem d x_col, getitem d y_col) of
        (Series x, Series y) \<Rightarrow>
          update_status (''Scatter plot created: '' @ x_col @ '' vs '' @ y_col) Success
            (s\<lparr>fig := [Scatter x_col y_col (col_values x) (col_values y)
                          (series_corr rt (col_values x) (col_values y))],
               right_notebook := plot_frame\<rparr>)
      | _ \<Rightarrow>
          messagebox
            (showerror ''Error'' (''Failed to create scatter plot:'' @ [CHR 0x0A] @ ''KeyError''))
            (s\<lparr>fig := [Empty_axes]\<rparr>))"

definition plot_scatter :: "runtime \<Rightarrow> (string \<times> string) option \<Rightarrow> app \<Rightarrow> app" where
  "plot_scatter rt pick s =
     (case df s of
        None \<Rightarrow> no_data_loaded s
      | Some d \<Rightarrow>
          let numeric_cols = map col_name (columns (select_number d))
          in if length numeric_cols < 2
             then messagebox
                    (showwarning ''Warning'' ''Need at least 2 numeric columns for scatter plot!'') s
             else (case pick of
                     None \<Rightarrow> s
                   | Some (x_col, y_col) \<Rightarrow> create_scatter rt d x_col y_col s))"

text \<open>
  \<open>save_plot\<close>; the figure exists from start-up on, so the test \<open>self.fig is None\<close> never
  holds. \<open>file_path\<close> is what the save dialog returned.
\<close>

definition save_plot :: "runtime \<Rightarrow> string \<Rightarrow> app \<Rightarrow> app" where
  "save_plot rt file_path s =
     (if file_path = [] then s
      else (case savefig rt file_path of
              None \<Rightarrow>
                update_status ''Plot saved successfully'' Success
                  (messagebox
                     (showinfo ''Success'' (''Plot saved successfully!'' @ [CHR 0x0A] @ file_path)) s)
            | Some e \<Rightarrow>
                messagebox (showerror ''Error'' (''Failed to save plot:'' @ [CHR 0x0A] @ e)) s))"

definition create_welcome_plot :: "app \<Rightarrow> app" where
  "create_welcome_plot s = s\<lparr>fig := fig s @ [Welcome_plot]\<rparr>"

definition clear_plot :: "app \<Rightarrow> app" where
  "clear_plot s = update_status ''Plot cleared'' Info (create_welcome_plot (s\<lparr>fig := []\<rparr>))"

text \<open>
  \<open>analyze_column\<close> has no \<open>try\<close>: an exception leaves the handler. A label that is
  not in the table raises at \<open>self.df[column]\<close>, before anything is written; a label
  that selects several columns raises at \<open>data.dtype\<close>, when the results pane has been
  made editable and emptied.
\<close>

definition numeric_analysis_of :: "runtime \<Rightarrow> cell list \<Rightarrow> numeric_analysis" where
  "numeric_analysis_of rt data =
     \<lparr>na_mean = mean rt data,
      na_median = median rt data,
      na_mode = first_mode rt data,
      na_std = std rt data,
      na_min = min_of rt data,
      na_max = max_of rt data,
      na_range = fsub rt (max_of rt data) (min_of rt data),
      na_skewness = skew rt data,
      na_kurtosis = kurtosis rt data,
      na_q1 = quantile rt data (1/4),
      na_q2 = quantile rt data (1/2),
      na_q3 = quantile rt data (3/4),
      na_iqr = fsub rt (quantile rt data (3/4)) (quantile rt data (1/4))\<rparr>"

definition categorical_analysis_of :: "runtime \<Rightarrow> cell list \<Rightarrow> categorical_analysis" where
  "categorical_analysis_of rt data =
     \<lparr>ca_unique = nunique data,
      ca_most_common = first_mode rt data,
      ca_top = head 10 (value_counts data)\<rparr>"

definition analyze_column :: "runtime \<Rightarrow> string \<Rightarrow> app \<Rightarrow> app" where
  "analyze_column rt now s =
     (case df s of
        None \<Rightarrow> no_data_or_column s
      | Some d \<Rightarrow>
          if column_var s = [] then no_data_or_column s
          else
            let column = column_var s
            in (case getitem d column of
                  KeyError \<Rightarrow> messagebox (callback_exception ''KeyError'') s
                | Frame \<Rightarrow>
                    messagebox (callback_exception ''AttributeError'')
                      (s\<lparr>results_text := Cleared, results_state := NORMAL\<rparr>)
                | Series c \<Rightarrow>
                    let data = col_values c;
                        body =
                          (if col_dtype c \<in> set [Int64, Float64]
                           then Numeric (numeric_analysis_of rt data)
                           else Categorical (categorical_analysis_of rt data))
                    in update_status (''Analysis completed for '' @ column) Success
                         (s\<lparr>results_text := Column_analysis
                              \<lparr>cr_column = column, cr_now = now, cr_dtype = col_dtype c,
                               cr_non_null = count data, cr_length = length data,
                               cr_missing = isnull_sum data,
                               cr_missing_percent = percent rt (isnull_sum data) (length data),
                               cr_analysis = body\<rparr>,
                            results_state := DISABLED,
                            right_notebook := results_frame\<rparr>)))"

section \<open>The operations of the application\<close>

text \<open>
  Every callback of the class that a menu entry or a button is bound to (the menu entry
  Exit is bound to Tk's own \<open>quit\<close>), with what the user supplies to it: the path chosen
  in a file dialog, the pair chosen in the scatter dialog. The handlers that only announce
  a feature show an information box.
\<close>

definition coming_soon :: "string \<Rightarrow> app \<Rightarrow> app" where
  "coming_soon msg s = messagebox (showinfo ''Info'' msg) s"

datatype operation =
    Load_data string
  | Load_sample_data
  | Save_analysis
  | Export_report
  | Show_data_info
  | Show_data_types
  | Analyze_missing_values
  | Show_statistical_summary
  | Correlation_analysis_op
  | Distribution_analysis
  | Outlier_detection
  | Feature_importance
  | Normality_test
  | Pca_analysis
  | Clustering_analysis
  | Anova_analysis
  | Data_cleaner
  | Feature_engineer
  | Show_settings
  | Analyze_column
  | Plot_column
  | Plot_histogram
  | Plot_line
  | Plot_boxplot
  | Plot_scatter "(string \<times> string) option"
  | Plot_pie
  | Plot_bar
  | Plot_correlation_heatmap
  | Plot_violin
  | Plot_pairplot
  | Plot_distribution
  | Save_plot string
  | Clear_plot

fun run :: "runtime \<Rightarrow> string \<Rightarrow> operation \<Rightarrow> app \<Rightarrow> app" where
  "run rt now (Load_data file_path) s = load_data rt file_path s"
| "run rt now Load_sample_data s = load_sample_data rt s"
| "run rt now Save_analysis s = coming_soon ''Save analysis feature coming soon!'' s"
| "run rt now Export_report s = coming_soon ''Export report feature coming soon!'' s"
| "run rt now Show_data_info s = show_data_info rt s"
| "run rt now Show_data_types s = coming_soon ''Data types feature implemented in data info!'' s"
| "run rt now Analyze_missing_values s = coming_soon ''Missing values analysis in data info!'' s"
| "run rt now Show_statistical_summary s = show_statistical_summary rt now s"
| "run rt now Correlation_analysis_op s = correlation_analysis rt now s"
| "run rt now Distribution_analysis s = plot_histogram rt s"
| "run rt now Outlier_detection s = coming_soon ''Outlier detection feature coming soon!'' s"
| "run rt now Feature_importance s = coming_soon ''Feature importance coming soon!'' s"
| "run rt now Normality_test s = coming_soon ''Normality test coming soon!'' s"
| "run rt now Pca_analysis s = coming_soon ''PCA analysis coming soon!'' s"
| "run rt now Clustering_analysis s = coming_soon ''Clustering analysis coming soon!'' s"
| "run rt now Anova_analysis s = coming_soon ''ANOVA test coming soon!'' s"
| "run rt now Data_cleaner s = coming_soon ''Data cleaner tool coming soon!'' s"
| "run rt now Feature_engineer s = coming_soon ''Feature engineering coming soon!'' s"
| "run rt now Show_settings s = coming_soon ''Settings panel coming soon!'' s"
| "run rt now Analyze_column s = analyze_column rt now s"
| "run rt now Plot_column s = plot_histogram rt s"
| "run rt now Plot_histogram s = plot_histogram rt s"
| "run rt now Plot_line s = coming_soon ''Line plot feature coming soon!'' s"
| "run rt now Plot_boxplot s = coming_soon ''Box plot feature coming soon!'' s"
| "run rt now (Plot_scatter pick) s = plot_scatter rt pick s"
| "run rt now Plot_pie s = coming_soon ''Pie chart feature coming soon!'' s"
| "run rt now Plot_bar s = coming_soon ''Bar plot feature coming soon!'' s"
| "run rt now Plot_correlation_heatmap s = plot_correlation_heatmap rt s"
| "run rt now Plot_violin s = coming_soon ''Violin plot feature coming soon!'' s"
| "run rt now Plot_pairplot s = coming_soon ''Pair plot feature coming soon!'' s"
| "run rt now Plot_distribution s = coming_soon ''Distribution plot feature coming soon!'' s"
| "run rt now (Save_plot file_path) s = save_plot rt file_path s"
| "run rt now Clear_plot s = clear_plot s"

text \<open>
  The handlers that open with a test of \<open>self.df is None\<close> followed by
  \<open>messagebox.showwarning\<close> and \<open>return\<close>.
\<close>

fun guarded :: "operation \<Rightarrow> bool" where
  "guarded Show_statistical_summary = True"
| "guarded Correlation_analysis_op = True"
| "guarded Distribution_analysis = True"
| "guarded Analyze_column = True"
| "guarded Plot_column = True"
| "guarded Plot_histogram = True"
| "guarded (Plot_scatter _) = True"
| "guarded Plot_correlation_heatmap = True"
| "guarded _ = False"

text \<open>The body of the report that \<open>analyze_column\<close> left in the results pane, if any.\<close>

definition analysis_of :: "app \<Rightarrow> analysis option" where
  "analysis_of s =
     (case results_text s of Column_analysis r \<Rightarrow> Some (cr_analysis r) | _ \<Rightarrow> None)"

section \<open>Example inputs\<close>

text \<open>
  A small table of staff (one income and one department missing, five departments), the
  same table with \<open>Age\<close> stored as 32-bit integers, a table without numeric columns,
  and runtimes to run the handlers on them. In \<open>rt0\<close> the CSV reader raises, the Excel
  reader returns the small table and the JSON reader the table without numeric columns;
  the statistics are those of the \<open>Age\<close> column, and of the correlations only the one of
  \<open>Age\<close> and \<open>Income\<close> is strong. \<open>rt32\<close> differs in the table its Excel reader returns.
\<close>

definition age :: column where
  "age = \<lparr>col_name = ''Age'', col_dtype = Int64,
           col_values = [IntV 31, IntV 45, IntV 28, IntV 44, IntV 45, IntV 52, IntV 35]\<rparr>"

definition income :: column where
  "income = \<lparr>col_name = ''Income'', col_dtype = Float64,
     col_values = [FloatV 41000, FloatV 58000, NA, FloatV 57250, FloatV 60100,
                   FloatV 72000, FloatV 48000]\<rparr>"

definition experience :: column where
  "experience = \<lparr>col_name = ''Experience'', col_dtype = Int64,
     col_values = [IntV 5, IntV 20, IntV 2, IntV 18, IntV 21, IntV 30, IntV 9]\<rparr>"

definition department :: column where
  "department = \<lparr>col_name = ''Department'', col_dtype = Object,
     col_values = [StrV ''IT'', StrV ''Sales'', StrV ''Marketing'', StrV ''HR'',
                   StrV ''Finance'', StrV ''IT'', NA]\<rparr>"

definition staff :: dataframe where
  "staff = \<lparr>nrows = 7, columns = [age, income, experience, department]\<rparr>"

definition staff32 :: dataframe where
  "staff32 = \<lparr>nrows = 7,
     columns = [age\<lparr>col_dtype := Int32\<rparr>, income, experience, department]\<rparr>"

definition labels_only :: dataframe where
  "labels_only = \<lparr>nrows = 7, columns = [department]\<rparr>"

definition rt0 :: runtime where
  "rt0 = \<lparr>read_csv = (\<lambda>p. Inl ''EmptyDataError''),
     read_excel = (\<lambda>p. Inr staff),
     read_json = (\<lambda>p. Inr labels_only),
     basename = (\<lambda>p. p),
     memory_usage_mb = (\<lambda>d. Finite 0),
     frame_min = (\<lambda>cs. Finite 2),
     frame_max = (\<lambda>cs. Finite 72000),
     describe_string = (\<lambda>d. []),
     corr = (\<lambda>d. \<lparr>corr_columns = map col_name (columns d),
                     corr_iloc = (\<lambda>i j. if i = j then Finite 1
                                         else if i + j = 1 then Finite (- 9/10)
                                         else if i + j = 2 then Finite (1/5)
                                         else NaN)\<rparr>),
     series_corr = (\<lambda>xs ys. Finite (- 9/10)),
     mean = (\<lambda>xs. Finite 40),
     median = (\<lambda>xs. Finite 44),
     std = (\<lambda>xs. Finite (219/25)),
     min_of = (\<lambda>xs. Finite 28),
     max_of = (\<lambda>xs. Finite 52),
     skew = (\<lambda>xs. Finite 0),
     kurtosis = (\<lambda>xs. Finite 0),
     quantile = (\<lambda>xs q. Finite 44),
     mode = (\<lambda>xs. map fst (take 1 (value_counts xs))),
     fsub = (\<lambda>a b. Finite 24),
     percent = (\<lambda>a b. Finite 0),
     savefig = (\<lambda>p. None),
     seed = (\<lambda>n. n),
     normal = (\<lambda>loc scale n g. (replicate n loc, g + 1)),
     uniform = (\<lambda>low high n g. (replicate n low, g + 1)),
     choice = (\<lambda>a n g. (replicate n (hd a), g + 1)),
     int_dtype = Int64\<rparr>"

definition rt32 :: runtime where
  "rt32 = rt0\<lparr>read_excel := (\<lambda>p. Inr staff32)\<rparr>"

text \<open>The application with the small table resident, as loaded from a workbook.\<close>

definition with_staff :: app where
  "with_staff = load_data rt0 ''staff.xlsx'' init"

definition with_staff32 :: app where
  "with_staff32 = load_data rt32 ''staff.xlsx'' init"

section \<open>Loading: which reader, and what a failed read leaves\<close>

text \<open>A path ends like its suffix, so no path ends in two of the four extensions.\<close>

lemma endswith_last:
  assumes "endswith s a" "a \<noteq> []"
  shows "last s = last a"
proof -
  from assms have "drop (length s - length a) s = a" by (simp add: endswith_def)
  then obtain p where "s = p @ a" by (metis append_take_drop_id)
  with assms(2) show ?thesis by simp
qed

lemma csv_not_excel:
  assumes "endswith p ''.csv''"
  shows "\<not> endswith p ''.xlsx''" "\<not> endswith p ''.xls''" "\<not> endswith p ''.json''"
  using endswith_last [OF assms] endswith_last [of p "''.xlsx''"] endswith_last [of p "''.xls''"]
    endswith_last [of p "''.json''"]
  by auto

lemma excel_not_json:
  assumes "endswith p ''.xlsx'' \<or> endswith p ''.xls''"
  shows "\<not> endswith p ''.json''"
  using assms endswith_last [of p "''.xlsx''"] endswith_last [of p "''.xls''"]
    endswith_last [of p "''.json''"]
  by auto

text \<open>The display functions leave the table and its path alone.\<close>

lemma df_show_data_info: "df (show_data_info rt s) = df s"
  by (simp add: show_data_info_def Let_def split: option.splits)

lemma df_update_column_list: "df (update_column_list s) = df s"
  by (simp add: update_column_list_def Let_def split: option.splits)

lemma df_update_data_display: "df (update_data_display rt s) = df s"
  by (simp add: update_data_display_def update_data_status_def Let_def split: option.splits)

lemma cf_show_data_info: "current_file (show_data_info rt s) = current_file s"
  by (simp add: show_data_info_def Let_def split: option.splits)

lemma cf_update_column_list: "current_file (update_column_list s) = current_file s"
  by (simp add: update_column_list_def Let_def split: option.splits)

lemma cf_update_data_display: "current_file (update_data_display rt s) = current_file s"
  by (simp add: update_data_display_def update_data_status_def Let_def split: option.splits)

lemmas keeps_df = df_show_data_info df_update_column_list df_update_data_display
  cf_show_data_info cf_update_column_list cf_update_data_display

text \<open>
  C8. The loader chooses the reader by the end of the path: \<open>.csv\<close> is read as CSV,
  \<open>.xlsx\<close> and \<open>.xls\<close> as a workbook, \<open>.json\<close> as JSON, and every other path is tried
  as CSV. What the chosen reader returns becomes the resident table, under that path.
\<close>

theorem load_data_dispatch:
  "(endswith p ''.csv'' \<longrightarrow> read_by_extension rt p = read_csv rt p) \<and>
   (endswith p ''.xlsx'' \<or> endswith p ''.xls'' \<longrightarrow> read_by_extension rt p = read_excel rt p) \<and>
   (endswith p ''.json'' \<longrightarrow> read_by_extension rt p = read_json rt p) \<and>
   (\<not> endswith p ''.csv'' \<and> \<not> endswith p ''.xlsx'' \<and> \<not> endswith p ''.xls'' \<and>
    \<not> endswith p ''.json'' \<longrightarrow> read_by_extension rt p = read_csv rt p) \<and>
   (p \<noteq> [] \<longrightarrow>
     (\<forall>d. read_by_extension rt p = Inr d \<longrightarrow>
        df (load_data rt p s) = Some d \<and> current_file (load_data rt p s) = Some p))"
  using csv_not_excel [of p] excel_not_json [of p]
  by (auto simp add: read_by_extension_def load_data_def keeps_df update_status_def)

text \<open>The five kinds of path, on the example runtime.\<close>

theorem load_data_dispatch_witness:
  "endswith ''staff.xlsx'' ''.xlsx'' \<and> read_by_extension rt0 ''staff.xlsx'' = Inr staff \<and>
   endswith ''old.xls'' ''.xls'' \<and> read_by_extension rt0 ''old.xls'' = Inr staff \<and>
   endswith ''staff.csv'' ''.csv'' \<and> read_by_extension rt0 ''staff.csv'' = Inl ''EmptyDataError'' \<and>
   endswith ''staff.json'' ''.json'' \<and> read_by_extension rt0 ''staff.json'' = Inr labels_only \<and>
   \<not> endswith ''staff.txt'' ''.csv'' \<and> \<not> endswith ''staff.txt'' ''.xlsx'' \<and>
   \<not> endswith ''staff.txt'' ''.xls'' \<and> \<not> endswith ''staff.txt'' ''.json'' \<and>
   read_by_extension rt0 ''staff.txt'' = Inl ''EmptyDataError'' \<and>
   ''staff.xlsx'' \<noteq> [] \<and> df (load_data rt0 ''staff.xlsx'' init) = Some staff \<and>
   current_file (load_data rt0 ''staff.xlsx'' init) = Some ''staff.xlsx''"
  using load_data_dispatch [of "''staff.xlsx''" rt0 init]
    load_data_dispatch [of "''old.xls''" rt0 init]
    load_data_dispatch [of "''staff.csv''" rt0 init]
    load_data_dispatch [of "''staff.json''" rt0 init]
    load_data_dispatch [of "''staff.txt''" rt0 init]
  by (simp add: endswith_def rt0_def)

text \<open>
  C1. When the reader raises on the chosen file, \<open>load_data\<close> keeps the resident table
  and its path: the only changes are the error dialog, which carries the reader's message,
  and the status line. This holds for every state before the call.
\<close>

theorem load_data_failure_retains_dataset:
  assumes "file_path \<noteq> []" and "read_by_extension rt file_path = Inl e"
  shows "df (load_data rt file_path s) = df s \<and>
         current_file (load_data rt file_path s) = current_file s \<and>
         load_data rt file_path s =
           s\<lparr>status_label := (''Failed to load data'', Error),
             dialogs := dialogs s @
               [showerror ''Error'' (''Failed to load data:'' @ [CHR 0x0A] @ e)]\<rparr>"
  using assms by (simp add: load_data_def load_failed_def update_status_def messagebox_def)

text \<open>A CSV file that does not parse, chosen while the small table is resident.\<close>

theorem load_data_failure_retains_dataset_witness:
  "''broken.csv'' \<noteq> [] \<and> read_by_extension rt0 ''broken.csv'' = Inl ''EmptyDataError'' \<and>
   df (load_data rt0 ''broken.csv'' with_staff) = Some staff \<and>
   current_file (load_data rt0 ''broken.csv'' with_staff) = Some ''staff.xlsx'' \<and>
   dialogs (load_data rt0 ''broken.csv'' with_staff) =
     [showerror ''Error'' (''Failed to load data:'' @ [CHR 0x0A] @ ''EmptyDataError'')]"
proof -
  have r: "read_by_extension rt0 ''broken.csv'' = Inl ''EmptyDataError''"
    by (simp add: read_by_extension_def endswith_def rt0_def)
  have d: "df with_staff = Some staff" "current_file with_staff = Some ''staff.xlsx''"
    "dialogs with_staff = []"
    by (simp_all add: with_staff_def load_data_def read_by_extension_def endswith_def rt0_def
        keeps_df update_status_def show_data_info_def update_column_list_def
        update_data_display_def update_data_status_def Let_def init_def split: option.splits)
  from load_data_failure_retains_dataset [of "''broken.csv''" rt0 "''EmptyDataError''" with_staff] r d
  show ?thesis by simp
qed

section \<open>The example states\<close>

text \<open>
  What is resident after loading the small tables, and the frequency tables of two of
  their columns.
\<close>

lemma with_staff_simps:
  "df with_staff = Some staff" "column_var with_staff = ''Age''"
  by (simp_all add: with_staff_def load_data_def read_by_extension_def endswith_def rt0_def
        keeps_df update_status_def show_data_info_def update_column_list_def
        update_data_display_def update_data_status_def Let_def init_def staff_def age_def
        split: option.splits)

lemma with_staff32_simps:
  "df with_staff32 = Some staff32" "column_var with_staff32 = ''Age''"
  by (simp_all add: with_staff32_def load_data_def read_by_extension_def endswith_def rt0_def
        rt32_def keeps_df update_status_def show_data_info_def update_column_list_def
        update_data_display_def update_data_status_def Let_def init_def staff32_def age_def
        split: option.splits)

lemma getitem_staff:
  "getitem staff ''Age'' = Series age" "getitem staff ''Department'' = Series department"
  "getitem staff32 ''Age'' = Series (age\<lparr>col_dtype := Int32\<rparr>)"
  by (simp_all add: getitem_def staff_def staff32_def age_def income_def experience_def
      department_def)


lemma value_counts_age:
  "value_counts (col_values age) =
     [(IntV 45, 2), (IntV 31, 1), (IntV 28, 1), (IntV 44, 1), (IntV 52, 1), (IntV 35, 1)]"
  by (simp add: value_counts_def counts_of_def dropna_def age_def)

lemma first_mode_age: "first_mode rt0 (col_values age) = Some (IntV 45)"
  "first_mode rt32 (col_values age) = Some (IntV 45)"
  by (simp_all add: first_mode_def rt0_def rt32_def value_counts_age)

section \<open>The sample generator\<close>

text \<open>Each call into \<open>np.random\<close> is a function of the generator state alone.\<close>

lemma np_random_normal_eq:
  "np_random_normal rt loc scale n s =
     (fst (normal rt loc scale n (np_random s)),
      s\<lparr>np_random := snd (normal rt loc scale n (np_random s))\<rparr>)"
  by (simp add: np_random_normal_def split_def Let_def)

lemma np_random_uniform_eq:
  "np_random_uniform rt low high n s =
     (fst (uniform rt low high n (np_random s)),
      s\<lparr>np_random := snd (uniform rt low high n (np_random s))\<rparr>)"
  by (simp add: np_random_uniform_def split_def Let_def)

lemma np_random_choice_eq:
  "np_random_choice rt a n s =
     (fst (choice rt a n (np_random s)),
      s\<lparr>np_random := snd (choice rt a n (np_random s))\<rparr>)"
  by (simp add: np_random_choice_def split_def Let_def)

lemma rng_show_data_info: "np_random (show_data_info rt s) = np_random s"
  by (simp add: show_data_info_def Let_def split: option.splits)

lemma rng_update_column_list: "np_random (update_column_list s) = np_random s"
  by (simp add: update_column_list_def Let_def split: option.splits)

lemma rng_update_data_display: "np_random (update_data_display rt s) = np_random s"
  by (simp add: update_data_display_def update_data_status_def Let_def split: option.splits)

lemmas keeps_rng = rng_show_data_info rng_update_column_list rng_update_data_display

lemma rng_load_sample_data:
  "np_random (load_sample_data rt s) = np_random (load_sample_data rt s')"
  by (simp add: load_sample_data_def np_random_seed_def np_random_normal_eq
      np_random_uniform_eq np_random_choice_eq Let_def keeps_rng update_status_def)

lemma df_load_sample_data_Some:
  "df (load_sample_data rt s) \<noteq> None"
  by (simp add: load_sample_data_def np_random_seed_def np_random_normal_eq
      np_random_uniform_eq np_random_choice_eq Let_def keeps_df update_status_def)

lemma df_load_sample_data:
  "df (load_sample_data rt s) = df (load_sample_data rt s')"
  by (simp add: load_sample_data_def np_random_seed_def np_random_normal_eq
      np_random_uniform_eq np_random_choice_eq Let_def keeps_df update_status_def)

text \<open>
  C6. The sample generator is deterministic: it installs the seed 42 before its first
  draw and reads nothing else, so the table it makes is the same from every state of the
  application and of the generator, and the same again when it is invoked a second
  time. It also leaves the generator in the same state, and a table is always resident
  afterwards.
\<close>

theorem load_sample_data_deterministic:
  "df (load_sample_data rt s) = df (load_sample_data rt s') \<and>
   df (load_sample_data rt (load_sample_data rt s)) = df (load_sample_data rt s) \<and>
   np_random (load_sample_data rt s) = np_random (load_sample_data rt s') \<and>
   df (load_sample_data rt s) \<noteq> None"
  using df_load_sample_data [of rt s s'] df_load_sample_data [of rt "load_sample_data rt s" s]
    rng_load_sample_data [of rt s s'] df_load_sample_data_Some [of rt s]
  by simp

text \<open>From the state after start-up and from the state with the small table resident.\<close>

theorem load_sample_data_deterministic_witness:
  "df (load_sample_data rt0 init) = df (load_sample_data rt0 with_staff) \<and>
   df (load_sample_data rt0 (load_sample_data rt0 init)) = df (load_sample_data rt0 init) \<and>
   np_random (load_sample_data rt0 init) = np_random (load_sample_data rt0 with_staff)"
  using load_sample_data_deterministic [of rt0 init with_staff]
  by simp

section \<open>Handlers without a resident table\<close>

lemma run_guarded_without_data:
  assumes "df s = None" "guarded op"
  shows "run rt now op s = no_data_loaded s \<or> run rt now op s = no_data_or_column s"
  using assms
  by (cases op)
     (simp_all add: show_statistical_summary_def correlation_analysis_def plot_histogram_def
       analyze_column_def plot_scatter_def plot_correlation_heatmap_def)

text \<open>
  C5, as amended. Each handler that tests for a resident table (statistical summary,
  correlation analysis, correlation heatmap, histogram and its two aliases, scatter plot,
  column analysis) shows a warning when there is none and changes nothing else;
  \<open>show_data_info\<close> shows no dialog and writes its notice into the information pane.
\<close>

theorem guarded_handlers_without_data:
  assumes "df s = None"
  shows "(guarded op \<longrightarrow>
            (\<exists>msg \<in> {''No data loaded!'', ''No data or column selected!''}.
               run rt now op s = s\<lparr>dialogs := dialogs s @ [showwarning ''Warning'' msg]\<rparr>)) \<and>
         run rt now Show_data_info s = s\<lparr>data_info_text := No_data_info\<rparr>"
proof (intro conjI impI)
  assume "guarded op"
  from run_guarded_without_data [OF assms this, of rt now]
  show "\<exists>msg \<in> {''No data loaded!'', ''No data or column selected!''}.
          run rt now op s = s\<lparr>dialogs := dialogs s @ [showwarning ''Warning'' msg]\<rparr>"
    by (auto simp add: no_data_loaded_def no_data_or_column_def messagebox_def)
next
  show "run rt now Show_data_info s = s\<lparr>data_info_text := No_data_info\<rparr>"
    using assms by (simp add: show_data_info_def)
qed

text \<open>Column analysis and data information in the state after start-up.\<close>

theorem guarded_handlers_without_data_witness:
  "df init = None \<and> guarded Analyze_column \<and>
   run rt0 ''now'' Analyze_column init =
     init\<lparr>dialogs := [showwarning ''Warning'' ''No data or column selected!'']\<rparr> \<and>
   run rt0 ''now'' Show_data_info init = init\<lparr>data_info_text := No_data_info\<rparr>"
  using guarded_handlers_without_data [of init Analyze_column rt0 "''now''"]
  by (simp add: init_def analyze_column_def no_data_or_column_def messagebox_def)

text \<open>
  C5, as stated, fails: after start-up, with no table resident, \<open>show_data_info\<close> changes
  the information pane and shows no warning.
\<close>

theorem no_data_counterexample:
  "df init = None \<and>
   data_info_text (run rt0 ''now'' Show_data_info init) \<noteq> data_info_text init \<and>
   dialogs (run rt0 ''now'' Show_data_info init) = []"
  by (simp add: init_def show_data_info_def)

section \<open>Correlation analysis\<close>

text \<open>
  C7. When the resident table has no numeric column, \<open>correlation_analysis\<close> shows a
  warning and changes nothing else; the correlation function of the library has no part
  in the outcome.
\<close>

theorem correlation_analysis_without_numeric_columns:
  assumes "df s = Some d" and "filter (\<lambda>c. is_number (col_dtype c)) (columns d) = []"
  shows "correlation_analysis rt now s =
           s\<lparr>dialogs := dialogs s @
               [showwarning ''Warning'' ''No numeric columns for correlation analysis!'']\<rparr> \<and>
         (\<forall>f. correlation_analysis (rt\<lparr>corr := f\<rparr>) now s = correlation_analysis rt now s)"
  using assms
  by (simp add: correlation_analysis_def select_number_def empty_def messagebox_def)

text \<open>The table of labels only, loaded from a JSON file.\<close>

theorem correlation_analysis_without_numeric_columns_witness:
  "df (load_data rt0 ''labels.json'' init) = Some labels_only \<and>
   filter (\<lambda>c. is_number (col_dtype c)) (columns labels_only) = [] \<and>
   dialogs (correlation_analysis rt0 ''now'' (load_data rt0 ''labels.json'' init)) =
     [showwarning ''Warning'' ''No numeric columns for correlation analysis!''] \<and>
   results_text (correlation_analysis rt0 ''now'' (load_data rt0 ''labels.json'' init)) =
     Welcome_message"
proof -
  have d: "df (load_data rt0 ''labels.json'' init) = Some labels_only"
    by (simp add: load_data_def read_by_extension_def endswith_def rt0_def keeps_df
        update_status_def)
  have e: "filter (\<lambda>c. is_number (col_dtype c)) (columns labels_only) = []"
    by (simp add: labels_only_def department_def)
  have k: "dialogs (load_data rt0 ''labels.json'' init) = []"
    "results_text (load_data rt0 ''labels.json'' init) = Welcome_message"
    by (simp_all add: load_data_def read_by_extension_def endswith_def rt0_def
        update_status_def show_data_info_def update_column_list_def
        update_data_display_def update_data_status_def Let_def init_def split: option.splits)
  from correlation_analysis_without_numeric_columns [OF d e, of rt0 "''now''"] d e k
  show ?thesis by simp
qed

text \<open>The rows appended by the two loops, by position.\<close>

lemma concat_map_if:
  "concat (map (\<lambda>j. if c j then [f j] else []) xs) = map f (filter c xs)"
  by (induction xs) simp_all

lemma distinct_concat_rows:
  assumes "distinct xs" "\<And>i. i \<in> set xs \<Longrightarrow> distinct (f i)"
    and "\<And>i p. i \<in> set xs \<Longrightarrow> p \<in> set (f i) \<Longrightarrow> fst p = i"
  shows "distinct (concat (map f xs))"
  using assms
proof (induction xs)
  case Nil
  then show ?case by simp
next
  case (Cons x xs)
  have "set (f x) \<inter> (\<Union>i\<in>set xs. set (f i)) = {}"
  proof (rule ccontr)
    assume "set (f x) \<inter> (\<Union>i\<in>set xs. set (f i)) \<noteq> {}"
    then obtain p i where "p \<in> set (f x)" "i \<in> set xs" "p \<in> set (f i)" by auto
    with Cons.prems(3) [of x p] Cons.prems(3) [of i p] have "x = i" by simp
    with \<open>i \<in> set xs\<close> Cons.prems(1) show False by simp
  qed
  with Cons show ?case by simp
qed

lemma strong_corr_positions:
  "strong_corr m =
     map (\<lambda>(i, j). (corr_columns m ! i, corr_columns m ! j, corr_iloc m i j))
       (strong_positions m)"
  by (simp add: strong_corr_def strong_positions_def concat_map_if map_concat comp_def)

lemma distinct_strong_positions: "distinct (strong_positions m)"
  unfolding strong_positions_def
  by (rule distinct_concat_rows) (auto simp add: distinct_map inj_on_def)

lemma set_strong_positions:
  "set (strong_positions m) =
     {(i, j). i < j \<and> j < length (corr_columns m) \<and>
              fgt (fabs (corr_iloc m i j)) (7/10)}"
proof (rule set_eqI, clarify)
  fix a b
  have "(a, b) \<in> set (strong_positions m) \<longleftrightarrow>
          (\<exists>i < length (corr_columns m).
             (a, b) \<in> Pair i ` {j. Suc i \<le> j \<and> j < length (corr_columns m) \<and>
                                   fgt (fabs (corr_iloc m i j)) (7/10)})"
    by (simp add: strong_positions_def Bex_def)
  also have "\<dots> \<longleftrightarrow> a < b \<and> b < length (corr_columns m) \<and>
                       fgt (fabs (corr_iloc m a b)) (7/10)"
    by (simp add: image_iff) linarith
  finally show "(a, b) \<in> set (strong_positions m) \<longleftrightarrow>
     (a, b) \<in> {(i, j). i < j \<and> j < length (corr_columns m) \<and>
              fgt (fabs (corr_iloc m i j)) (7/10)}"
    by simp
qed

lemma results_correlation_analysis:
  assumes "df s = Some d" "\<not> empty (select_number d)"
  shows "results_text (correlation_analysis rt now s) =
           Correlation_analysis now (corr rt (select_number d))
             (strong_corr (corr rt (select_number d)))"
  using assms by (simp add: correlation_analysis_def Let_def update_status_def)

lemma names_differ:
  assumes "distinct cols" "i < j" "j < length cols"
  shows "cols ! i \<noteq> cols ! j"
  using assms by (simp add: nth_eq_iff_index_eq)

lemma unordered_inj:
  assumes "distinct cols"
  shows "inj_on (\<lambda>(i, j). {cols ! i, cols ! j}) {(i, j). i < j \<and> j < length cols \<and> P i j}"
proof (rule inj_onI, clarify)
  fix i j i' j'
  assume h: "i < j" "j < length cols" "i' < j'" "j' < length cols"
    and e: "{cols ! i, cols ! j} = {cols ! i', cols ! j'}"
  from e have "(cols ! i = cols ! i' \<and> cols ! j = cols ! j') \<or> (cols ! i = cols ! j' \<and> cols ! j = cols ! i')"
    by (simp add: doubleton_eq_iff)
  with assms h have "(i = i' \<and> j = j') \<or> (i = j' \<and> j = i')"
    by (simp add: nth_eq_iff_index_eq)
  with h show "i = i' \<and> j = j'" by auto
qed

text \<open>
  C2. The strong-correlation part of the report lists exactly the pairs of positions
  \<open>i < j\<close> of the correlation matrix (the numeric columns, as the library correlated
  them) whose entry exceeds 0.7 in absolute value, each once: no position is paired with
  itself and no pair appears in both orders. Where the labels of the matrix are pairwise
  distinct, no label is paired with itself and no unordered pair of labels is repeated.
  A not-a-number entry exceeds nothing.
\<close>

theorem strong_correlations_exact:
  assumes "df s = Some d" "\<not> empty (select_number d)"
  shows "\<exists>ps. results_text (correlation_analysis rt now s) =
            Correlation_analysis now (corr rt (select_number d))
              (map (\<lambda>(i, j). (corr_columns (corr rt (select_number d)) ! i,
                              corr_columns (corr rt (select_number d)) ! j,
                              corr_iloc (corr rt (select_number d)) i j)) ps) \<and>
          distinct ps \<and>
          set ps = {(i, j). i < j \<and> j < length (corr_columns (corr rt (select_number d))) \<and>
                     fgt (fabs (corr_iloc (corr rt (select_number d)) i j)) (7/10)} \<and>
          (\<forall>(i, j) \<in> set ps. i \<noteq> j \<and> (j, i) \<notin> set ps) \<and>
          (distinct (corr_columns (corr rt (select_number d))) \<longrightarrow>
             (\<forall>(i, j) \<in> set ps. corr_columns (corr rt (select_number d)) ! i \<noteq>
                                  corr_columns (corr rt (select_number d)) ! j) \<and>
             distinct (map (\<lambda>(i, j). {corr_columns (corr rt (select_number d)) ! i,
                                      corr_columns (corr rt (select_number d)) ! j}) ps))"
proof -
  let ?m = "corr rt (select_number d)"
  let ?ps = "strong_positions ?m"
  have 1: "results_text (correlation_analysis rt now s) =
            Correlation_analysis now ?m
              (map (\<lambda>(i, j). (corr_columns ?m ! i, corr_columns ?m ! j, corr_iloc ?m i j)) ?ps)"
    using results_correlation_analysis [OF assms] by (simp add: strong_corr_positions)
  have 2: "distinct ?ps" by (rule distinct_strong_positions)
  have 3: "set ?ps = {(i, j). i < j \<and> j < length (corr_columns ?m) \<and>
                     fgt (fabs (corr_iloc ?m i j)) (7/10)}"
    by (simp add: set_strong_positions)
  have 4: "\<forall>(i, j) \<in> set ?ps. i \<noteq> j \<and> (j, i) \<notin> set ?ps"
    unfolding 3 by auto
  have 5: "\<forall>(i, j) \<in> set ?ps. corr_columns ?m ! i \<noteq> corr_columns ?m ! j"
    if "distinct (corr_columns ?m)"
    unfolding 3 using names_differ [OF that] by auto
  have 6: "distinct (map (\<lambda>(i, j). {corr_columns ?m ! i, corr_columns ?m ! j}) ?ps)"
    if "distinct (corr_columns ?m)"
    unfolding distinct_map 3 using 2 unordered_inj [OF that] by (simp add: 3)
  from 1 2 3 4 5 6 show ?thesis by blast
qed

text \<open>
  The small table has three numeric columns; of their three pairs only \<open>Age\<close> and
  \<open>Income\<close> are strongly correlated in the example runtime.
\<close>

theorem strong_correlations_exact_witness:
  "df with_staff = Some staff \<and> \<not> empty (select_number staff) \<and>
   corr_columns (corr rt0 (select_number staff)) = [''Age'', ''Income'', ''Experience''] \<and>
   strong_positions (corr rt0 (select_number staff)) = [(0, 1)] \<and>
   results_text (correlation_analysis rt0 ''now'' with_staff) =
     Correlation_analysis ''now'' (corr rt0 (select_number staff))
       [(''Age'', ''Income'', Finite (- 9/10))]"
proof -
  have e: "\<not> empty (select_number staff)"
    "corr_columns (corr rt0 (select_number staff)) = [''Age'', ''Income'', ''Experience'']"
    by (simp_all add: empty_def select_number_def staff_def age_def income_def experience_def
        department_def rt0_def)
  have u: "[0..<3] = [0, 1, 2]" "[1..<3] = [1, 2]" "[2..<3] = [2]"
    by (simp_all add: upt_rec)
  have i: "corr_iloc (corr rt0 (select_number staff)) =
             (\<lambda>i j. if i = j then Finite 1 else if i + j = 1 then Finite (- 9/10)
                     else if i + j = 2 then Finite (1/5) else NaN)"
    by (simp add: rt0_def)
  have p: "strong_positions (corr rt0 (select_number staff)) = [(0, 1)]"
    by (simp add: strong_positions_def e u i)
  have s: "strong_corr (corr rt0 (select_number staff)) = [(''Age'', ''Income'', Finite (- 9/10))]"
    by (simp add: strong_corr_positions p e i)
  from strong_correlations_exact [of with_staff staff rt0 "''now''"] with_staff_simps e p s
  show ?thesis
    by (simp add: correlation_analysis_def Let_def update_status_def)
qed

section \<open>Frequencies\<close>











section \<open>Histogram\<close>




section \<open>Column analysis\<close>

lemma analysis_of_analyze_column:
  assumes "df s = Some d" "column_var s \<noteq> []" "getitem d (column_var s) = Series c"
  shows "analysis_of (analyze_column rt now s) =
           Some (if col_dtype c \<in> set [Int64, Float64]
                 then Numeric (numeric_analysis_of rt (col_values c))
                 else Categorical (categorical_analysis_of rt (col_values c)))"
  using assms
  by (simp add: analyze_column_def analysis_of_def update_status_def Let_def)

text \<open>
  C10. \<open>analyze_column\<close> gives the numeric statistics exactly when the dtype of the
  column is \<open>int64\<close> or \<open>float64\<close>. For every other dtype, \<open>int32\<close>, \<open>float32\<close> and
  \<open>bool\<close> among them, it gives the categorical analysis: the number of distinct values,
  the first mode and the first ten entries of the frequency table.
\<close>

theorem analyze_column_numeric_only_int64_float64:
  assumes "df s = Some d" "column_var s \<noteq> []" "getitem d (column_var s) = Series c"
  shows "(analysis_of (analyze_column rt now s) = Some (Numeric (numeric_analysis_of rt (col_values c)))
            \<longleftrightarrow> col_dtype c = Int64 \<or> col_dtype c = Float64) \<and>
         (col_dtype c \<noteq> Int64 \<and> col_dtype c \<noteq> Float64 \<longrightarrow>
            analysis_of (analyze_column rt now s) =
              Some (Categorical
                \<lparr>ca_unique = nunique (col_values c),
                 ca_most_common = first_mode rt (col_values c),
                 ca_top = head 10 (value_counts (col_values c))\<rparr>)) \<and>
         (col_dtype c \<in> {Int32, Float32, Bool} \<longrightarrow>
            (\<exists>ca. analysis_of (analyze_column rt now s) = Some (Categorical ca)))"
  using analysis_of_analyze_column [OF assms, of rt now]
  by (auto simp add: categorical_analysis_of_def)

text \<open>\<open>Age\<close> stored as \<open>int32\<close> is analysed as categorical, stored as \<open>int64\<close> as numeric.\<close>

theorem analyze_column_numeric_only_int64_float64_witness:
  "df with_staff32 = Some staff32 \<and> column_var with_staff32 \<noteq> [] \<and>
   getitem staff32 (column_var with_staff32) = Series (age\<lparr>col_dtype := Int32\<rparr>) \<and>
   col_dtype (age\<lparr>col_dtype := Int32\<rparr>) \<in> {Int32, Float32, Bool} \<and>
   analysis_of (analyze_column rt32 ''now'' with_staff32) =
     Some (Categorical
       \<lparr>ca_unique = 6, ca_most_common = Some (IntV 45),
        ca_top = [(IntV 45, 2), (IntV 31, 1), (IntV 28, 1), (IntV 44, 1), (IntV 52, 1),
                  (IntV 35, 1)]\<rparr>) \<and>
   df with_staff = Some staff \<and> getitem staff (column_var with_staff) = Series age \<and>
   col_dtype age = Int64 \<and>
   analysis_of (analyze_column rt0 ''now'' with_staff) =
     Some (Numeric (numeric_analysis_of rt0 (col_values age)))"
proof -
  have n: "nunique (col_values age) = 6" "col_dtype age = Int64"
    by (simp_all add: nunique_def dropna_def age_def)
  from analyze_column_numeric_only_int64_float64
         [of with_staff32 staff32 "age\<lparr>col_dtype := Int32\<rparr>" rt32 "''now''"]
    analyze_column_numeric_only_int64_float64 [of with_staff staff age rt0 "''now''"]
    getitem_staff first_mode_age with_staff_simps with_staff32_simps value_counts_age n
  show ?thesis by (simp add: head_def)
qed




end
